theory Spec2Isabelle
  imports Complex_Main
begin

section \<open>The ledger node of blockchain-node.js, as HOL functions\<close>

text \<open>
  The node (the version of \<open>blockchain-node.js\<close> that persists its ledger) keeps two
  globals, \<open>blockchain\<close> and \<open>peers\<close>, and mutates them from its WebSocket handlers.
  The model passes both explicitly: every handler takes the state and returns the new
  state together with what it sent. It covers the message handlers, the blockchain
  helpers, persistence and the genesis block; the registration of peers in
  \<open>handleMessage\<close>, the ping sweep and the HTTP endpoints are left out.

  Conventions of the embedding:
  \<^item> a property that may be missing from a JSON object is an \<open>option\<close>; \<open>None\<close> is
    JavaScript's \<open>undefined\<close> (for the fields read below, \<open>null\<close> behaves alike);
    a property that is present has the type the data model gives it;
  \<^item> JSON numbers are the integers (amounts, fees, heights, counts), so the sums below
    are exact; fractional seconds are rationals. The code holds doubles, which agree
    with the integers below \<open>2^53\<close> in magnitude;
  \<^item> a payload that fails to decode, or decodes to \<open>null\<close>, is \<open>None\<close>: the handler's
    \<open>try\<close>/\<open>catch\<close> swallows the exception and nothing else happens;
  \<^item> a JavaScript \<open>Map\<close> is an association list in insertion order with distinct keys,
    a \<open>Set\<close> a duplicate-free list in insertion order;
  \<^item> \<open>Date.now()\<close>, \<open>generateMessageId()\<close> and the SHA-256 digest are parameters.
\<close>

subsection \<open>JavaScript containers\<close>

type_synonym ('k, 'v) jsmap = "('k \<times> 'v) list"

fun Map_set :: "'k \<Rightarrow> 'v \<Rightarrow> ('k, 'v) jsmap \<Rightarrow> ('k, 'v) jsmap" where
  "Map_set k v [] = [(k, v)]"
| "Map_set k v ((k', v') # m) = (if k' = k then (k, v) # m else (k', v') # Map_set k v m)"

definition Map_get :: "'k \<Rightarrow> ('k, 'v) jsmap \<Rightarrow> 'v option" where
  "Map_get k m = map_of m k"

definition Map_has :: "'k \<Rightarrow> ('k, 'v) jsmap \<Rightarrow> bool" where
  "Map_has k m = (map_of m k \<noteq> None)"

definition Map_values :: "('k, 'v) jsmap \<Rightarrow> 'v list" where
  "Map_values m = map snd m"

definition Map_entries :: "('k, 'v) jsmap \<Rightarrow> ('k \<times> 'v) list" where
  "Map_entries m = m"

text \<open>\<open>new Map(entries)\<close>: the entries are set one after the other.\<close>

definition new_Map :: "('k \<times> 'v) list \<Rightarrow> ('k, 'v) jsmap" where
  "new_Map es = foldl (\<lambda>m (k, v). Map_set k v m) [] es"

definition Set_add :: "'a \<Rightarrow> 'a list \<Rightarrow> 'a list" where
  "Set_add x s = (if x \<in> set s then s else s @ [x])"

definition new_Set :: "'a list \<Rightarrow> 'a list" where
  "new_Set xs = foldl (\<lambda>s x. Set_add x s) [] xs"

text \<open>\<open>xs.slice(0, n)\<close>: a negative end counts from the end of the array.\<close>

definition slice0 :: "'a list \<Rightarrow> int \<Rightarrow> 'a list" where
  "slice0 xs n = (if n < 0 then take (length xs - nat (- n)) xs else take (nat n) xs)"

subsection \<open>Data model\<close>

datatype json = JNull | JBool bool | JNum int | JStr string
  | JArr "json list" | JObj "(string \<times> json) list"

text \<open>
  A block hash as a \<open>Map\<close> key: \<open>block.hash\<close> of a block without the property is
  \<open>undefined\<close>, and \<open>JSON.stringify\<close> writes an \<open>undefined\<close> array element as \<open>null\<close>.
\<close>

datatype hkey = Undefined | Null | Hash string

record transaction =
  tx_id :: "string option"
  tx_type :: "string option"
  fromAddress :: "string option"
  toAddress :: "string option"
  amount :: "int option"
  fee :: "int option"
  tx_timestamp :: "int option"
  tx_data :: "json option"

record header =
  h_height :: "int option"
  h_index :: "int option"
  h_timestamp :: "rat option"
  h_previousHash :: "string option"
  h_merkleRoot :: "string option"

record block =
  b_hash :: hkey
  b_header :: "header option"
  b_transactions :: "transaction option list option"
  b_previousHash :: "string option"

record blockchain =
  blocks :: "(hkey, block) jsmap"
  transactions :: "(string, transaction) jsmap"
  height :: int
  tips :: "hkey list"
  txByAddress :: "(string, string list) jsmap"
  genesisHash :: hkey

record peer =
  p_nodeId :: string
  p_address :: string
  connectedAt :: int
  lastSeen :: int
  messageCount :: nat
  isAlive :: bool
  wsOpen :: bool

record 'p message =
  m_id :: "string option"
  m_type :: "string option"
  senderId :: "string option"
  payload :: "'p option"
  m_timestamp :: "rat option"

record syncRequest =
  lastKnownBlockHeight :: "int option"
  userAddress :: "string option"
  requestedBlocks :: "int option"

record syncResponse =
  r_blocks :: "block list"
  userTransactions :: "transaction list"
  currentHeight :: int
  currentBalances :: "(string \<times> int) list"

record node =
  chain :: blockchain
  peers :: "(string, peer) jsmap"

definition emptyChain :: blockchain where
  "emptyChain = \<lparr>blocks = [], transactions = [], height = 0, tips = [],
     txByAddress = [], genesisHash = Null\<rparr>"

subsection \<open>Truthiness and defaults\<close>

text \<open>\<open>x || d\<close> on a number: \<open>undefined\<close> and \<open>0\<close> both give \<open>d\<close>.\<close>

definition orElse :: "int option \<Rightarrow> int \<Rightarrow> int" where
  "orElse x d = (case x of None \<Rightarrow> d | Some v \<Rightarrow> if v = 0 then d else v)"

text \<open>
  \<open>Number.isSafeInteger\<close>: the integers the doubles of the code hold exactly and
  tell apart.
\<close>

definition safeInteger :: "int \<Rightarrow> bool" where
  "safeInteger n \<longleftrightarrow> \<bar>n\<bar> < 2 ^ 53"

text \<open>\<open>s || d\<close> on a string: \<open>undefined\<close> and the empty string both give \<open>d\<close>.\<close>

definition strOr :: "string option \<Rightarrow> string \<Rightarrow> string" where
  "strOr s d = (case s of None \<Rightarrow> d | Some v \<Rightarrow> if v = [] then d else v)"

text \<open>The expression \<open>b.header?.height || 0\<close>, which the source writes out at every use.\<close>

definition headerHeight :: "block \<Rightarrow> int" where
  "headerHeight b = (case b_header b of None \<Rightarrow> 0 | Some h \<Rightarrow> orElse (h_height h) 0)"

subsection \<open>Blockchain helpers\<close>

text \<open>
  The two statements \<open>if (!txByAddress.has(a)) txByAddress.set(a, [])\<close> and
  \<open>txByAddress.get(a).push(id)\<close>.
\<close>

definition indexPush :: "string \<Rightarrow> string \<Rightarrow> blockchain \<Rightarrow> blockchain" where
  "indexPush a i bc =
     (let m = (if \<not> Map_has a (txByAddress bc) then Map_set a [] (txByAddress bc)
               else txByAddress bc)
      in case Map_get a m of
           None \<Rightarrow> bc\<lparr>txByAddress := m\<rparr>
         | Some ids \<Rightarrow> bc\<lparr>txByAddress := Map_set a (ids @ [i]) m\<rparr>)"

definition storeTransaction :: "transaction option \<Rightarrow> blockchain \<Rightarrow> blockchain" where
  "storeTransaction txo bc =
     (case txo of
        None \<Rightarrow> bc
      | Some tx \<Rightarrow>
          (case tx_id tx of
             None \<Rightarrow> bc
           | Some i \<Rightarrow>
               if i = [] then bc
               else
                 let bc1 = bc\<lparr>transactions := Map_set i tx (transactions bc)\<rparr>;
                     bc2 = (case fromAddress tx of
                              None \<Rightarrow> bc1
                            | Some f \<Rightarrow> if f \<noteq> [] then indexPush f i bc1 else bc1)
                 in (case toAddress tx of
                       None \<Rightarrow> bc2
                     | Some t \<Rightarrow>
                         if t \<noteq> [] \<and> toAddress tx \<noteq> fromAddress tx
                         then indexPush t i bc2 else bc2)))"

definition balanceStep :: "string option \<Rightarrow> blockchain \<Rightarrow> int \<Rightarrow> string \<Rightarrow> int" where
  "balanceStep address bc balance txId =
     (case Map_get txId (transactions bc) of
        None \<Rightarrow> balance
      | Some tx \<Rightarrow>
          (let b1 = (if toAddress tx = address then balance + orElse (amount tx) 0
                     else balance)
           in if fromAddress tx = address
              then b1 - orElse (amount tx) 0 - orElse (fee tx) 0 else b1))"

definition addressTxIds :: "string option \<Rightarrow> blockchain \<Rightarrow> string list" where
  "addressTxIds address bc =
     (case address of
        None \<Rightarrow> []
      | Some a \<Rightarrow> (case Map_get a (txByAddress bc) of None \<Rightarrow> [] | Some ids \<Rightarrow> ids))"

definition calculateBalance :: "string option \<Rightarrow> blockchain \<Rightarrow> int" where
  "calculateBalance address bc = foldl (balanceStep address bc) 0 (addressTxIds address bc)"

text \<open>The constructor of class \<open>Peer\<close>; \<open>ws\<close> is whether the socket is open.\<close>

definition newPeer :: "bool \<Rightarrow> string \<Rightarrow> string \<Rightarrow> int \<Rightarrow> peer" where
  "newPeer ws nodeId address now =
     \<lparr>p_nodeId = nodeId, p_address = address, connectedAt = now, lastSeen = now,
      messageCount = 0, isAlive = True, wsOpen = ws\<rparr>"

definition peer_send :: "peer \<Rightarrow> peer" where
  "peer_send p = (if wsOpen p then p\<lparr>messageCount := Suc (messageCount p)\<rparr> else p)"

text \<open>
  \<open>broadcastToPeers\<close> returns the registry after the sends and the list of
  (recipient, message) pairs handed to the sockets; \<open>sentCount\<close> is its length.
\<close>

fun broadcastToPeers ::
  "'m \<Rightarrow> string option \<Rightarrow> (string, peer) jsmap \<Rightarrow> (string, peer) jsmap \<times> (string \<times> 'm) list"
where
  "broadcastToPeers message excludeNodeId [] = ([], [])"
| "broadcastToPeers message excludeNodeId ((nodeId, p) # rest) =
     (let (ps, sent) = broadcastToPeers message excludeNodeId rest
      in if Some nodeId \<noteq> excludeNodeId \<and> wsOpen p
         then ((nodeId, peer_send p) # ps, (nodeId, message) # sent)
         else ((nodeId, p) # ps, sent))"

subsection \<open>Message handlers\<close>

definition syncBlocks :: "syncRequest \<Rightarrow> blockchain \<Rightarrow> block list" where
  "syncBlocks rq bc =
     slice0
       (sort_key headerHeight
          (filter (\<lambda>b. headerHeight b > orElse (lastKnownBlockHeight rq) 0)
             (Map_values (blocks bc))))
       (orElse (requestedBlocks rq) 100)"

definition syncUserTransactions :: "syncRequest \<Rightarrow> blockchain \<Rightarrow> transaction list" where
  "syncUserTransactions rq bc =
     List.map_filter (\<lambda>txId. Map_get txId (transactions bc)) (addressTxIds (userAddress rq) bc)"

definition addressKey :: "string option \<Rightarrow> string" where
  "addressKey a = (case a of None \<Rightarrow> ''undefined'' | Some s \<Rightarrow> s)"

text \<open>
  \<open>handleSyncRequest\<close> answers on the requesting socket; the result is the ledger
  after the call and the response sent, if any. \<open>fresh\<close> is the value of
  \<open>generateMessageId()\<close> and \<open>now\<close> of \<open>Date.now()\<close>.
\<close>

definition handleSyncRequest ::
  "string \<Rightarrow> int \<Rightarrow> syncRequest message \<Rightarrow> blockchain
     \<Rightarrow> blockchain \<times> syncResponse message option"
where
  "handleSyncRequest fresh now message bc =
     (case payload message of
        None \<Rightarrow> (bc, None)
      | Some rq \<Rightarrow>
          (let blks = syncBlocks rq bc;
               userTxs = syncUserTransactions rq bc;
               balance = calculateBalance (userAddress rq) bc;
               rsp = \<lparr>r_blocks = blks, userTransactions = userTxs,
                       currentHeight = height bc,
                       currentBalances = [(addressKey (userAddress rq), balance)]\<rparr>
           in (bc, Some \<lparr>m_id = Some (strOr (m_id message) fresh),
                        m_type = Some ''syncResponse'', senderId = Some ''seed_node'',
                        payload = Some rsp, m_timestamp = Some (of_int now / 1000)\<rparr>)))"

definition handleBlockBroadcast ::
  "block message \<Rightarrow> node \<Rightarrow> node \<times> (string \<times> block message) list"
where
  "handleBlockBroadcast message n =
     (case payload message of
        None \<Rightarrow> (n, [])
      | Some blk \<Rightarrow>
          if Map_has (b_hash blk) (blocks (chain n)) then (n, [])
          else
            let bc1 = (chain n)\<lparr>blocks := Map_set (b_hash blk) blk (blocks (chain n))\<rparr>;
                bc2 = bc1\<lparr>height := max (height bc1) (headerHeight blk)\<rparr>;
                bc3 = (case b_transactions blk of
                         None \<Rightarrow> bc2
                       | Some txs \<Rightarrow> foldl (\<lambda>bc tx. storeTransaction tx bc) bc2 txs);
                (ps, sent) = broadcastToPeers message (senderId message) (peers n)
            in (\<lparr>chain = bc3, peers = ps\<rparr>, sent))"

definition handleTransactionBroadcast ::
  "transaction message \<Rightarrow> node \<Rightarrow> node \<times> (string \<times> transaction message) list"
where
  "handleTransactionBroadcast message n =
     (case payload message of
        None \<Rightarrow> (n, [])
      | Some tx \<Rightarrow>
          let bc1 = storeTransaction (Some tx) (chain n);
              (ps, sent) = broadcastToPeers message (senderId message) (peers n)
          in (\<lparr>chain = bc1, peers = ps\<rparr>, sent))"

subsection \<open>Persistence\<close>

text \<open>
  The document written to \<open>blockchain.json\<close>. \<open>serialized\<close> is what \<open>JSON.parse\<close> reads
  back from the text \<open>JSON.stringify\<close> wrote:
  \<^item> an \<open>undefined\<close> element of an array (here the key of an entry pair, or a tip) comes
    back as \<open>null\<close>; a property whose value is \<open>undefined\<close> is left out and so reads as
    \<open>undefined\<close> again;
  \<^item> a number is written in decimal and read back unchanged when it is finite. A JSON
    literal beyond the range of the doubles (\<open>1e999\<close>) is \<open>Infinity\<close> in the code; the
    model keeps the integer, and \<open>finiteNumber\<close> tells when it stands for a finite
    double. \<open>JSON.stringify\<close> writes \<open>Infinity\<close> as \<open>null\<close>. (It writes \<open>-0\<close> as
    \<open>0\<close>; the integers, like \<open>===\<close>, do not tell the two apart.)
\<close>

definition finiteNumber :: "int \<Rightarrow> bool" where
  "finiteNumber n \<longleftrightarrow> \<bar>n\<bar> < 2 ^ 1024 - 2 ^ 970"

definition finiteRat :: "rat \<Rightarrow> bool" where
  "finiteRat q \<longleftrightarrow> \<bar>q\<bar> < 2 ^ 1024 - 2 ^ 970"

definition jsonNumber :: "int option \<Rightarrow> int option" where
  "jsonNumber x = (case x of None \<Rightarrow> None | Some n \<Rightarrow> if finiteNumber n then Some n else None)"

definition jsonRat :: "rat option \<Rightarrow> rat option" where
  "jsonRat x = (case x of None \<Rightarrow> None | Some q \<Rightarrow> if finiteRat q then Some q else None)"

primrec jsonValue :: "json \<Rightarrow> json" where
  "jsonValue JNull = JNull"
| "jsonValue (JBool b) = JBool b"
| "jsonValue (JNum n) = (if finiteNumber n then JNum n else JNull)"
| "jsonValue (JStr s) = JStr s"
| "jsonValue (JArr js) = JArr (map jsonValue js)"
| "jsonValue (JObj kvs) = JObj (map (map_prod id jsonValue) kvs)"

definition jsonTransaction :: "transaction \<Rightarrow> transaction" where
  "jsonTransaction tx =
     tx\<lparr>amount := jsonNumber (amount tx), fee := jsonNumber (fee tx),
        tx_timestamp := jsonNumber (tx_timestamp tx),
        tx_data := map_option jsonValue (tx_data tx)\<rparr>"

definition jsonHeader :: "header \<Rightarrow> header" where
  "jsonHeader h =
     h\<lparr>h_height := jsonNumber (h_height h), h_index := jsonNumber (h_index h),
       h_timestamp := jsonRat (h_timestamp h)\<rparr>"

definition jsonBlock :: "block \<Rightarrow> block" where
  "jsonBlock b =
     b\<lparr>b_header := map_option jsonHeader (b_header b),
       b_transactions := map_option (map (map_option jsonTransaction)) (b_transactions b)\<rparr>"

record snapshot =
  s_blocks :: "(hkey \<times> block) list"
  s_transactions :: "(string \<times> transaction) list"
  s_txByAddress :: "(string \<times> string list) list"
  s_height :: "int option"
  s_tips :: "hkey list"
  s_genesisHash :: hkey
  savedAt :: int

fun jsonElem :: "hkey \<Rightarrow> hkey" where
  "jsonElem Undefined = Null"
| "jsonElem k = k"

definition serialized :: "snapshot \<Rightarrow> snapshot" where
  "serialized data =
     data\<lparr>s_blocks := map (\<lambda>(k, b). (jsonElem k, jsonBlock b)) (s_blocks data),
          s_transactions := map (\<lambda>(k, tx). (k, jsonTransaction tx)) (s_transactions data),
          s_height := jsonNumber (s_height data),
          s_tips := map jsonElem (s_tips data)\<rparr>"

datatype filecontent = Unparsable | Document snapshot

text \<open>
  The data directory: whether it exists, the content of \<open>blockchain.json\<close> if the file
  exists, and whether \<open>writeFileSync\<close> throws.
\<close>

record disk =
  dirExists :: bool
  dataFile :: "filecontent option"
  writeFails :: bool

definition ensureDataDirectory :: "disk \<Rightarrow> disk" where
  "ensureDataDirectory d = (if \<not> dirExists d then d\<lparr>dirExists := True\<rparr> else d)"

definition saveBlockchain :: "int \<Rightarrow> blockchain \<Rightarrow> disk \<Rightarrow> disk" where
  "saveBlockchain now bc d =
     (let d1 = ensureDataDirectory d;
          data = \<lparr>s_blocks = Map_entries (blocks bc),
                   s_transactions = Map_entries (transactions bc),
                   s_txByAddress = Map_entries (txByAddress bc),
                   s_height = Some (height bc), s_tips = tips bc,
                   s_genesisHash = genesisHash bc, savedAt = now\<rparr>
      in if writeFails d1 then d1 else d1\<lparr>dataFile := Some (Document (serialized data))\<rparr>)"

text \<open>
  A height that was written as \<open>null\<close> is assigned as it is; the one computation on the stored
  height, \<open>Math.max\<close>, reads \<open>null\<close> as 0, and so the model holds 0.
\<close>

definition loadBlockchain :: "disk \<Rightarrow> blockchain \<Rightarrow> blockchain \<times> bool" where
  "loadBlockchain d bc =
     (case dataFile d of
        None \<Rightarrow> (bc, False)
      | Some Unparsable \<Rightarrow> (bc, False)
      | Some (Document data) \<Rightarrow>
          (bc\<lparr>blocks := new_Map (s_blocks data),
              transactions := new_Map (s_transactions data),
              txByAddress := new_Map (s_txByAddress data),
              height := (case s_height data of None \<Rightarrow> 0 | Some h \<Rightarrow> h),
              tips := new_Set (s_tips data),
              genesisHash := s_genesisHash data\<rparr>, True))"

subsection \<open>Genesis\<close>

fun decimal :: "nat \<Rightarrow> string" where
  "decimal n = (if n < 10 then [''0123456789'' ! n]
                else decimal (n div 10) @ [''0123456789'' ! (n mod 10)])"

definition showInt :: "int \<Rightarrow> string" where
  "showInt i = (if i < 0 then CHR ''-'' # decimal (nat (- i)) else decimal (nat i))"

definition initialSupply :: "(string \<times> int) list" where
  "initialSupply =
     [(''treasury'', 100000000), (''team'', 20000000), (''validators'', 10000000),
      (''community_rewards'', 30000000), (''liquidity_pool'', 40000000)]"

definition genesisTx :: "int \<Rightarrow> nat \<times> string \<times> int \<Rightarrow> transaction" where
  "genesisTx genesisTimestamp e =
     (case e of (index, address, amt) \<Rightarrow>
        \<lparr>tx_id = Some (''genesis-tx-'' @ decimal index),
         tx_type = Some ''genesis_allocation'',
         fromAddress = Some ''genesis'', toAddress = Some address,
         amount = Some amt, fee = Some 0, tx_timestamp = Some genesisTimestamp,
         tx_data = Some (JObj [(''allocation_type'', JStr address),
                               (''total_supply'', JNum 200000000)])\<rparr>)"

definition zeroHash :: string where
  "zeroHash = replicate 64 CHR ''0''"

text \<open>
  \<open>sha256\<close> is the hex digest of a string and \<open>stringify\<close> is \<open>JSON.stringify\<close> on the
  transaction array; \<open>genesisTimestamp\<close> and \<open>saveTime\<close> are the two readings of
  \<open>Date.now()\<close>.
\<close>

definition createGenesisBlock ::
  "(string \<Rightarrow> string) \<Rightarrow> (transaction list \<Rightarrow> string) \<Rightarrow> int \<Rightarrow> int
     \<Rightarrow> blockchain \<times> disk \<Rightarrow> blockchain \<times> disk"
where
  "createGenesisBlock sha256 stringify genesisTimestamp saveTime s =
     (case s of (bc, d) \<Rightarrow>
        let genesisTransactions =
              map (genesisTx genesisTimestamp) (enumerate 0 initialSupply);
            bc1 = foldl (\<lambda>c tx. storeTransaction (Some tx) c) bc genesisTransactions;
            genesisBlock =
              \<lparr>b_hash = Hash (sha256 (''ziwio-genesis-block'' @ showInt genesisTimestamp)),
               b_header = Some
                 \<lparr>h_height = Some 0, h_index = Some 0,
                  h_timestamp = Some (of_int genesisTimestamp / 1000),
                  h_previousHash = Some zeroHash,
                  h_merkleRoot = Some (sha256 (stringify genesisTransactions))\<rparr>,
               b_transactions = Some (map Some genesisTransactions),
               b_previousHash = Some zeroHash\<rparr>;
            bc2 = bc1\<lparr>blocks := Map_set (b_hash genesisBlock) genesisBlock (blocks bc1),
                      height := 0,
                      tips := Set_add (b_hash genesisBlock) (tips bc1),
                      genesisHash := b_hash genesisBlock\<rparr>
        in (bc2, saveBlockchain saveTime bc2 d))"

text \<open>Start-up: load the snapshot, and create the genesis block when none was loaded.\<close>

definition initialize ::
  "(string \<Rightarrow> string) \<Rightarrow> (transaction list \<Rightarrow> string) \<Rightarrow> int \<Rightarrow> int \<Rightarrow> disk
     \<Rightarrow> blockchain \<times> disk"
where
  "initialize sha256 stringify genesisTimestamp saveTime d =
     (case loadBlockchain d emptyChain of
        (bc, True) \<Rightarrow> (bc, d)
      | (bc, False) \<Rightarrow> createGenesisBlock sha256 stringify genesisTimestamp saveTime (bc, d))"

subsection \<open>The balance as the specification words it\<close>

text \<open>
  The sum of \<open>amount\<close> over the stored transactions received by an address, minus the
  sum of \<open>amount + fee\<close> over the stored transactions sent from it.
\<close>

definition balanceSpec :: "string \<Rightarrow> blockchain \<Rightarrow> int" where
  "balanceSpec a bc =
     (\<Sum>tx\<leftarrow>filter (\<lambda>tx. toAddress tx = Some a) (Map_values (transactions bc)).
        orElse (amount tx) 0)
     - (\<Sum>tx\<leftarrow>filter (\<lambda>tx. fromAddress tx = Some a) (Map_values (transactions bc)).
          orElse (amount tx) 0 + orElse (fee tx) 0)"

text \<open>The net effect of one transaction on the balance of an address.\<close>

definition txEffect :: "string \<Rightarrow> transaction \<Rightarrow> int" where
  "txEffect a tx =
     (if toAddress tx = Some a then orElse (amount tx) 0 else 0)
     - (if fromAddress tx = Some a then orElse (amount tx) 0 + orElse (fee tx) 0 else 0)"

subsection \<open>Observations and representation invariant\<close>

text \<open>The \<open>blocks\<close> array of the response a sync request was answered with.\<close>

definition responseBlocks :: "syncResponse message option \<Rightarrow> block list" where
  "responseBlocks r =
     (case r of None \<Rightarrow> []
      | Some rsp \<Rightarrow> (case payload rsp of None \<Rightarrow> [] | Some p \<Rightarrow> r_blocks p))"

text \<open>A \<open>Map\<close> holds each key once; the three tables of the ledger are such lists.\<close>

definition mapInv :: "blockchain \<Rightarrow> bool" where
  "mapInv bc \<longleftrightarrow> distinct (map fst (blocks bc)) \<and> distinct (map fst (transactions bc))
     \<and> distinct (map fst (txByAddress bc))"

text \<open>
  Every stored transaction is listed in the index of the addresses it names, as far as
  they are non-empty (\<open>storeTransaction\<close> skips an empty address).
\<close>

definition covered :: "string option \<Rightarrow> string \<Rightarrow> blockchain \<Rightarrow> bool" where
  "covered ao i bc =
     (case ao of None \<Rightarrow> True | Some a \<Rightarrow> a = [] \<or> i \<in> set (addressTxIds (Some a) bc))"

definition indexCovers :: "blockchain \<Rightarrow> bool" where
  "indexCovers bc =
     list_all (\<lambda>(i, tx). covered (fromAddress tx) i bc \<and> covered (toAddress tx) i bc)
       (transactions bc)"

text \<open>Every number stored in the ledger is finite.\<close>

definition finiteOpt :: "int option \<Rightarrow> bool" where
  "finiteOpt x = (case x of None \<Rightarrow> True | Some n \<Rightarrow> finiteNumber n)"

primrec finiteJson :: "json \<Rightarrow> bool" where
  "finiteJson JNull = True"
| "finiteJson (JBool b) = True"
| "finiteJson (JNum n) = finiteNumber n"
| "finiteJson (JStr s) = True"
| "finiteJson (JArr js) = list_all finiteJson js"
| "finiteJson (JObj kvs) = list_all (pred_prod (\<lambda>k. True) finiteJson) kvs"

definition finiteTransaction :: "transaction \<Rightarrow> bool" where
  "finiteTransaction tx \<longleftrightarrow>
     finiteOpt (amount tx) \<and> finiteOpt (fee tx) \<and> finiteOpt (tx_timestamp tx)
     \<and> (case tx_data tx of None \<Rightarrow> True | Some j \<Rightarrow> finiteJson j)"

definition finiteHeader :: "header \<Rightarrow> bool" where
  "finiteHeader h \<longleftrightarrow>
     finiteOpt (h_height h) \<and> finiteOpt (h_index h)
     \<and> (case h_timestamp h of None \<Rightarrow> True | Some q \<Rightarrow> finiteRat q)"

definition finiteBlock :: "block \<Rightarrow> bool" where
  "finiteBlock b \<longleftrightarrow>
     (case b_header b of None \<Rightarrow> True | Some h \<Rightarrow> finiteHeader h)
     \<and> (case b_transactions b of
           None \<Rightarrow> True
         | Some txs \<Rightarrow>
             list_all (\<lambda>t. case t of None \<Rightarrow> True | Some tx \<Rightarrow> finiteTransaction tx) txs)"

definition finiteLedger :: "blockchain \<Rightarrow> bool" where
  "finiteLedger bc \<longleftrightarrow>
     finiteNumber (height bc) \<and> list_all (\<lambda>e. finiteBlock (snd e)) (blocks bc)
     \<and> list_all (\<lambda>e. finiteTransaction (snd e)) (transactions bc)"

subsection \<open>Sample inputs and runs\<close>

definition exPeers :: "(string, peer) jsmap" where
  "exPeers = [(''p1'', newPeer True ''p1'' ''10.0.0.1'' 0),
              (''p2'', newPeer True ''p2'' ''10.0.0.2'' 0),
              (''p3'', newPeer False ''p3'' ''10.0.0.3'' 0)]"

definition exNode :: node where
  "exNode = \<lparr>chain = emptyChain, peers = exPeers\<rparr>"

definition exTx :: transaction where
  "exTx = \<lparr>tx_id = Some ''t1'', tx_type = Some ''transfer'', fromAddress = Some ''alice'',
     toAddress = Some ''bob'', amount = Some 10, fee = Some 1, tx_timestamp = None,
     tx_data = None\<rparr>"

definition exSelfTx :: transaction where
  "exSelfTx = \<lparr>tx_id = Some ''t2'', tx_type = Some ''transfer'', fromAddress = Some ''carol'',
     toAddress = Some ''carol'', amount = Some 7, fee = Some 2, tx_timestamp = None,
     tx_data = None\<rparr>"

definition exHeader :: "int \<Rightarrow> header" where
  "exHeader h = \<lparr>h_height = Some h, h_index = Some h, h_timestamp = None,
     h_previousHash = None, h_merkleRoot = None\<rparr>"

definition exBlock :: "hkey \<Rightarrow> header option \<Rightarrow> transaction option list \<Rightarrow> block" where
  "exBlock k hdr txs = \<lparr>b_hash = k, b_header = hdr, b_transactions = Some txs,
     b_previousHash = None\<rparr>"

definition exMsg :: "string \<Rightarrow> string \<Rightarrow> 'p \<Rightarrow> 'p message" where
  "exMsg ty sender p = \<lparr>m_id = Some ''m'', m_type = Some ty, senderId = Some sender,
     payload = Some p, m_timestamp = None\<rparr>"

definition exDisk :: disk where
  "exDisk = \<lparr>dirExists = False, dataFile = None, writeFails = False\<rparr>"

definition exSync :: "int option \<Rightarrow> int option \<Rightarrow> syncRequest" where
  "exSync lk rb = \<lparr>lastKnownBlockHeight = lk, userAddress = Some ''bob'', requestedBlocks = rb\<rparr>"

text \<open>
  A transaction is broadcast by peer \<open>p1\<close> and then arrives again inside the block
  that includes it, broadcast by peer \<open>p2\<close>.
\<close>

definition resentNode :: node where
  "resentNode =
     fst (handleBlockBroadcast
            (exMsg ''blockBroadcast'' ''p2'' (exBlock (Hash ''h1'') (Some (exHeader 1)) [Some exTx]))
            (fst (handleTransactionBroadcast (exMsg ''transactionBroadcast'' ''p1'' exTx) exNode)))"

text \<open>A block whose JSON has no \<open>hash\<close> property, broadcast to the empty node.\<close>

definition noHashBlock :: block where
  "noHashBlock = exBlock Undefined (Some (exHeader 5)) []"

definition noHashNode :: node where
  "noHashNode = fst (handleBlockBroadcast (exMsg ''blockBroadcast'' ''p1'' noHashBlock) exNode)"

text \<open>Two blocks of height 1 under different hashes.\<close>

definition forkNode :: node where
  "forkNode =
     fst (handleBlockBroadcast
            (exMsg ''blockBroadcast'' ''p2'' (exBlock (Hash ''h1b'') (Some (exHeader 1)) []))
            (fst (handleBlockBroadcast
                    (exMsg ''blockBroadcast'' ''p1'' (exBlock (Hash ''h1a'') (Some (exHeader 1)) []))
                    exNode)))"

text \<open>
  A block whose header has the height \<open>2^1024\<close>, a JSON number that overflows the
  doubles, broadcast to the empty node; and blocks of heights 2, 0 and 1, broadcast in
  that order.
\<close>

definition hugeBlock :: block where
  "hugeBlock = exBlock (Hash ''hx'') (Some (exHeader (2 ^ 1024))) []"

definition hugeNode :: node where
  "hugeNode = fst (handleBlockBroadcast (exMsg ''blockBroadcast'' ''p1'' hugeBlock) exNode)"

definition ladderNode :: node where
  "ladderNode =
     fst (handleBlockBroadcast
            (exMsg ''blockBroadcast'' ''p1'' (exBlock (Hash ''b1'') (Some (exHeader 1)) []))
            (fst (handleBlockBroadcast
                    (exMsg ''blockBroadcast'' ''p1'' (exBlock (Hash ''b0'') (Some (exHeader 0)) []))
                    (fst (handleBlockBroadcast
                            (exMsg ''blockBroadcast'' ''p1''
                               (exBlock (Hash ''b2'') (Some (exHeader 2)) []))
                            exNode)))))"

text \<open>A block whose JSON has no \<open>header\<close> property.\<close>

definition noHeaderBlock :: block where
  "noHeaderBlock = exBlock (Hash ''h0'') None []"

section \<open>Properties\<close>

subsection \<open>Containers\<close>

lemma map_of_Map_set: "map_of (Map_set k v m) = (map_of m)(k \<mapsto> v)"
  by (induction m) auto

lemma Map_has_Map_set: "Map_has k' (Map_set k v m) \<longleftrightarrow> k' = k \<or> Map_has k' m"
  by (simp add: Map_has_def map_of_Map_set)

lemma keys_Map_set:
  "map fst (Map_set k v m) = (if k \<in> fst ` set m then map fst m else map fst m @ [k])"
  by (induction m) force+

lemma distinct_Map_set: "distinct (map fst m) \<Longrightarrow> distinct (map fst (Map_set k v m))"
  by (simp add: keys_Map_set)

lemma Map_set_fresh: "k \<notin> fst ` set m \<Longrightarrow> Map_set k v m = m @ [(k, v)]"
  by (induction m) auto

lemma foldl_Map_set_distinct:
  "distinct (map fst (acc @ es)) \<Longrightarrow> foldl (\<lambda>m (k, v). Map_set k v m) acc es = acc @ es"
proof (induction es arbitrary: acc)
  case Nil
  then show ?case by simp
next
  case (Cons e es)
  obtain k v where e: "e = (k, v)" by (cases e)
  from Cons.prems have "k \<notin> fst ` set acc" by (auto simp: e)
  then have "Map_set k v acc = acc @ [(k, v)]" by (rule Map_set_fresh)
  moreover have "distinct (map fst ((acc @ [(k, v)]) @ es))" using Cons.prems by (simp add: e)
  ultimately show ?case using Cons.IH [of "acc @ [(k, v)]"] by (simp add: e)
qed

lemma new_Map_distinct: "distinct (map fst es) \<Longrightarrow> new_Map es = es"
  using foldl_Map_set_distinct [of "[]" es] by (simp add: new_Map_def)

lemma foldl_Map_set_keys:
  "distinct (map fst acc) \<Longrightarrow> distinct (map fst (foldl (\<lambda>m (k, v). Map_set k v m) acc es))"
  by (induction es arbitrary: acc) (auto simp: distinct_Map_set)

lemma set_slice0: "set (slice0 xs n) \<subseteq> set xs"
  by (auto simp: slice0_def dest: in_set_takeD)

subsection \<open>What storing a transaction leaves alone\<close>

lemma indexPush_frame:
  "blocks (indexPush a i bc) = blocks bc"
  "transactions (indexPush a i bc) = transactions bc"
  "height (indexPush a i bc) = height bc"
  "tips (indexPush a i bc) = tips bc"
  "genesisHash (indexPush a i bc) = genesisHash bc"
  by (simp_all add: indexPush_def Let_def split: option.splits)

lemma storeTransaction_frame:
  "blocks (storeTransaction t bc) = blocks bc"
  "height (storeTransaction t bc) = height bc"
  "tips (storeTransaction t bc) = tips bc"
  "genesisHash (storeTransaction t bc) = genesisHash bc"
  by (simp_all add: storeTransaction_def Let_def indexPush_frame split: option.splits)

lemma storeAll_frame:
  "blocks (foldl (\<lambda>bc tx. storeTransaction tx bc) bc txs) = blocks bc"
  "height (foldl (\<lambda>bc tx. storeTransaction tx bc) bc txs) = height bc"
  "tips (foldl (\<lambda>bc tx. storeTransaction tx bc) bc txs) = tips bc"
  "genesisHash (foldl (\<lambda>bc tx. storeTransaction tx bc) bc txs) = genesisHash bc"
  by (induction txs arbitrary: bc) (simp_all add: storeTransaction_frame)

lemma storeTransaction_without_id:
  "storeTransaction None bc = bc"
  "tx_id tx = None \<Longrightarrow> storeTransaction (Some tx) bc = bc"
  "tx_id tx = Some [] \<Longrightarrow> storeTransaction (Some tx) bc = bc"
  by (simp_all add: storeTransaction_def)

lemma storeTransaction_transfer:
  assumes "tx_id tx = Some i" "i \<noteq> []" "fromAddress tx = Some f" "f \<noteq> []"
    "toAddress tx = Some t" "t \<noteq> []" "t \<noteq> f"
  shows "storeTransaction (Some tx) bc =
    indexPush t i (indexPush f i (bc\<lparr>transactions := Map_set i tx (transactions bc)\<rparr>))"
  using assms by (simp add: storeTransaction_def)

lemma addressTxIds_indexPush:
  "addressTxIds (Some a) (indexPush a i bc) = addressTxIds (Some a) bc @ [i]"
  by (auto simp: addressTxIds_def indexPush_def Let_def Map_has_def Map_get_def map_of_Map_set
      split: option.splits)

lemma addressTxIds_transactions_update:
  "addressTxIds a (bc\<lparr>transactions := t\<rparr>) = addressTxIds a bc"
  by (simp add: addressTxIds_def split: option.splits)

subsection \<open>The representation invariant is kept\<close>

lemma mapInv_empty: "mapInv emptyChain"
  by (simp add: mapInv_def emptyChain_def)

lemma mapInv_indexPush: "mapInv bc \<Longrightarrow> mapInv (indexPush a i bc)"
  by (auto simp: mapInv_def indexPush_def Let_def distinct_Map_set split: option.splits)

lemma mapInv_storeTransaction: "mapInv bc \<Longrightarrow> mapInv (storeTransaction t bc)"
proof -
  assume inv: "mapInv bc"
  have upd: "mapInv (bc\<lparr>transactions := Map_set i tx (transactions bc)\<rparr>)" for i tx
    using inv by (simp add: mapInv_def distinct_Map_set)
  show ?thesis
    using inv upd
    by (auto simp: storeTransaction_def Let_def mapInv_indexPush split: option.splits)
qed

lemma mapInv_storeAll:
  "mapInv bc \<Longrightarrow> mapInv (foldl (\<lambda>bc tx. storeTransaction tx bc) bc txs)"
  by (induction txs arbitrary: bc) (simp_all add: mapInv_storeTransaction)

lemma mapInv_handleBlockBroadcast:
  "mapInv (chain n) \<Longrightarrow> mapInv (chain (fst (handleBlockBroadcast m n)))"
proof -
  assume inv: "mapInv (chain n)"
  have "mapInv ((chain n)\<lparr>blocks := Map_set k b (blocks (chain n)), height := h\<rparr>)" for k b h
    using inv by (simp add: mapInv_def distinct_Map_set)
  then show ?thesis
    using inv
    by (auto simp: handleBlockBroadcast_def Let_def split_def mapInv_storeAll
        split: option.splits)
qed

lemma mapInv_handleTransactionBroadcast:
  "mapInv (chain n) \<Longrightarrow> mapInv (chain (fst (handleTransactionBroadcast m n)))"
  by (auto simp: handleTransactionBroadcast_def Let_def split_def mapInv_storeTransaction
      split: option.splits)

lemma mapInv_loadBlockchain: "mapInv bc \<Longrightarrow> mapInv (fst (loadBlockchain d bc))"
  by (auto simp: loadBlockchain_def mapInv_def new_Map_def foldl_Map_set_keys
      split: option.splits filecontent.splits)

subsection \<open>Block broadcasts\<close>

lemma broadcastToPeers_sent:
  "snd (broadcastToPeers message ex ps) =
     map (\<lambda>(i, p). (i, message)) (filter (\<lambda>(i, p). Some i \<noteq> ex \<and> wsOpen p) ps)"
  by (induction ps) (auto simp: split_def Let_def)

lemma handleBlockBroadcast_known:
  "payload m = Some b \<Longrightarrow> Map_has (b_hash b) (blocks (chain n)) \<Longrightarrow>
     handleBlockBroadcast m n = (n, [])"
  by (simp add: handleBlockBroadcast_def)

lemma handleBlockBroadcast_new:
  assumes "payload m = Some b" "\<not> Map_has (b_hash b) (blocks (chain n))"
  shows "blocks (chain (fst (handleBlockBroadcast m n))) = Map_set (b_hash b) b (blocks (chain n))"
    and "height (chain (fst (handleBlockBroadcast m n))) = max (height (chain n)) (headerHeight b)"
    and "snd (handleBlockBroadcast m n) = snd (broadcastToPeers m (senderId m) (peers n))"
  using assms
  by (simp_all add: handleBlockBroadcast_def Let_def split_def storeAll_frame split: option.splits)

text \<open>The stored height starts at 0 and never goes below it.\<close>

lemma height_handleBlockBroadcast:
  "0 \<le> height (chain n) \<Longrightarrow> 0 \<le> height (chain (fst (handleBlockBroadcast m n)))"
  by (auto simp: handleBlockBroadcast_def Let_def split_def storeAll_frame split: option.splits)

lemma height_handleTransactionBroadcast:
  "height (chain (fst (handleTransactionBroadcast m n))) = height (chain n)"
  by (auto simp: handleTransactionBroadcast_def Let_def split_def storeTransaction_frame
      split: option.splits)

subsection \<open>Sync responses\<close>

lemma responseBlocks_handleSyncRequest:
  "payload message = Some rq \<Longrightarrow>
     responseBlocks (snd (handleSyncRequest fresh now message bc)) = syncBlocks rq bc"
  by (simp add: handleSyncRequest_def responseBlocks_def Let_def)

lemma handleSyncRequest_responds:
  "payload message = Some rq \<Longrightarrow> snd (handleSyncRequest fresh now message bc) \<noteq> None"
  by (simp add: handleSyncRequest_def Let_def)

lemma syncBlocks_above:
  "b \<in> set (syncBlocks rq bc) \<Longrightarrow> orElse (lastKnownBlockHeight rq) 0 < headerHeight b"
  using set_slice0 by (fastforce simp: syncBlocks_def)

lemma syncBlocks_sorted: "sorted (map headerHeight (syncBlocks rq bc))"
  by (simp add: syncBlocks_def slice0_def take_map [symmetric] sorted_wrt_take del: take_map)

lemma syncBlocks_length:
  "0 \<le> orElse (requestedBlocks rq) 100 \<Longrightarrow>
     length (syncBlocks rq bc) \<le> nat (orElse (requestedBlocks rq) 100)"
  by (simp add: syncBlocks_def slice0_def)

lemma syncBlocks_strict:
  assumes "distinct (map headerHeight
             (filter (\<lambda>b. orElse (lastKnownBlockHeight rq) 0 < headerHeight b)
                (Map_values (blocks bc))))"
  shows "sorted_wrt (<) (map headerHeight (syncBlocks rq bc))"
proof -
  let ?xs = "filter (\<lambda>b. orElse (lastKnownBlockHeight rq) 0 < headerHeight b)
               (Map_values (blocks bc))"
  from assms have "distinct ?xs" and "inj_on headerHeight (set ?xs)"
    by (simp_all add: distinct_map)
  then have "distinct (map headerHeight (sort_key headerHeight ?xs))"
    by (simp add: distinct_map)
  then have "distinct (take k (map headerHeight (sort_key headerHeight ?xs)))" for k
    by (rule distinct_take)
  then have "distinct (map headerHeight (syncBlocks rq bc))"
    by (simp add: syncBlocks_def slice0_def take_map)
  then show ?thesis
    using syncBlocks_sorted [of rq bc] by (simp add: strict_sorted_iff)
qed

lemma syncBlocks_length_exact:
  "0 \<le> orElse (requestedBlocks rq) 100 \<Longrightarrow>
     length (syncBlocks rq bc) =
       min (nat (orElse (requestedBlocks rq) 100))
         (length (filter (\<lambda>b. orElse (lastKnownBlockHeight rq) 0 < headerHeight b)
            (Map_values (blocks bc))))"
  by (simp add: syncBlocks_def slice0_def min.commute)

lemma headerHeight_absent:
  "b_header blk = None \<or> (\<exists>h. b_header blk = Some h \<and> h_height h = None) \<Longrightarrow>
     headerHeight blk = 0"
  by (auto simp: headerHeight_def orElse_def)

subsection \<open>Snapshots\<close>

lemma jsonElem_defined: "k \<noteq> Undefined \<Longrightarrow> jsonElem k = k"
  by (cases k) simp_all

lemma jsonNumber_finite: "finiteOpt x \<Longrightarrow> jsonNumber x = x"
  by (cases x) (simp_all add: finiteOpt_def jsonNumber_def)

lemma jsonValue_finite: "finiteJson j \<Longrightarrow> jsonValue j = j"
proof (induction j)
  case (JArr js)
  then have "map jsonValue js = js"
    by (intro map_idI) (simp add: list_all_iff)
  then show ?case by simp
next
  case (JObj kvs)
  have "map_prod id jsonValue e = e" if "e \<in> set kvs" for e
  proof -
    obtain k v where e: "e = (k, v)" by (cases e)
    have "finiteJson v" using JObj.prems that by (auto simp: list_all_iff e)
    moreover have "v \<in> Basic_BNFs.snds e" by (simp add: e)
    ultimately show ?thesis using JObj.IH [OF that] by (simp add: e)
  qed
  then have "map (map_prod id jsonValue) kvs = kvs"
    by (intro map_idI)
  then show ?case by simp
qed simp_all

lemma jsonTransaction_finite: "finiteTransaction tx \<Longrightarrow> jsonTransaction tx = tx"
  by (cases "tx_data tx")
    (simp_all add: finiteTransaction_def jsonTransaction_def jsonNumber_finite jsonValue_finite)

lemma jsonHeader_finite: "finiteHeader h \<Longrightarrow> jsonHeader h = h"
  by (cases "h_timestamp h")
    (simp_all add: finiteHeader_def jsonHeader_def jsonNumber_finite jsonRat_def)

lemma jsonTransactions_finite:
  "list_all (\<lambda>t. case t of None \<Rightarrow> True | Some tx \<Rightarrow> finiteTransaction tx) txs \<Longrightarrow>
     map (map_option jsonTransaction) txs = txs"
proof (rule map_idI)
  fix t assume "list_all (\<lambda>t. case t of None \<Rightarrow> True | Some tx \<Rightarrow> finiteTransaction tx) txs"
    and "t \<in> set txs"
  then show "map_option jsonTransaction t = t"
    by (cases t) (auto simp: list_all_iff jsonTransaction_finite)
qed

lemma jsonBlock_finite: "finiteBlock b \<Longrightarrow> jsonBlock b = b"
  by (cases "b_header b"; cases "b_transactions b")
    (simp_all add: finiteBlock_def jsonBlock_def jsonHeader_finite jsonTransactions_finite)

lemma serialized_blocks:
  "Undefined \<notin> fst ` set es \<Longrightarrow> list_all (\<lambda>e. finiteBlock (snd e)) es \<Longrightarrow>
     map (\<lambda>(k, b). (jsonElem k, jsonBlock b)) es = es"
proof (rule map_idI)
  fix e assume keys: "Undefined \<notin> fst ` set es"
    and fin: "list_all (\<lambda>e. finiteBlock (snd e)) es" and e: "e \<in> set es"
  obtain k b where kb: "e = (k, b)" by (cases e)
  have "k \<noteq> Undefined" using keys e by (force simp: kb)
  moreover have "finiteBlock b" using fin e by (auto simp: list_all_iff kb)
  ultimately show "(case e of (k, b) \<Rightarrow> (jsonElem k, jsonBlock b)) = e"
    by (simp add: kb jsonElem_defined jsonBlock_finite)
qed

lemma serialized_transactions:
  "list_all (\<lambda>e. finiteTransaction (snd e)) es \<Longrightarrow>
     map (\<lambda>(k, tx). (k, jsonTransaction tx)) es = es"
  by (intro map_idI) (auto simp: list_all_iff jsonTransaction_finite)

subsection \<open>Balances\<close>

lemma balanceStep_effect:
  "balanceStep (Some a) bc s i =
     s + (case map_of (transactions bc) i of None \<Rightarrow> 0 | Some tx \<Rightarrow> txEffect a tx)"
  by (simp add: balanceStep_def txEffect_def Map_get_def Let_def split: option.splits)

lemma foldl_balanceStep:
  "foldl (balanceStep (Some a) bc) s ids =
     s + (\<Sum>i\<leftarrow>ids. case map_of (transactions bc) i of None \<Rightarrow> 0 | Some tx \<Rightarrow> txEffect a tx)"
  by (induction ids arbitrary: s) (simp_all add: balanceStep_effect)

lemma sum_list_filter_if:
  "(\<Sum>x\<leftarrow>filter P xs. f x) = (\<Sum>x\<leftarrow>xs. if P x then f x else (0::int))"
  by (induction xs) simp_all

lemma balanceSpec_effect:
  "balanceSpec a bc = (\<Sum>e\<leftarrow>transactions bc. txEffect a (snd e))"
  by (simp add: balanceSpec_def Map_values_def sum_list_filter_if txEffect_def o_def
      sum_list_subtractf)

lemma sum_list_table:
  "distinct (map fst t) \<Longrightarrow>
     (\<Sum>e\<leftarrow>t. f (snd e)) =
     (\<Sum>k\<in>fst ` set t. case map_of t k of None \<Rightarrow> 0 | Some v \<Rightarrow> (f v :: int))"
proof (induction t)
  case Nil
  then show ?case by simp
next
  case (Cons e t)
  obtain k v where e: "e = (k, v)" by (cases e)
  have k: "k \<notin> fst ` set t" using Cons.prems by (simp add: e)
  have "(\<Sum>x\<in>fst ` set t. case map_of (e # t) x of None \<Rightarrow> 0 | Some v \<Rightarrow> f v) =
        (\<Sum>x\<in>fst ` set t. case map_of t x of None \<Rightarrow> 0 | Some v \<Rightarrow> f v)"
    using k by (intro sum.cong) (auto simp: e)
  then show ?case using Cons k by (simp add: e)
qed

text \<open>
  Where the index of an address lists no id twice and lists every stored transaction
  that names the address, \<open>calculateBalance\<close> is the balance of the specification.
\<close>

lemma calculateBalance_spec:
  assumes keys: "distinct (map fst (transactions bc))"
    and once: "distinct (addressTxIds (Some a) bc)"
    and indexed: "\<And>i tx. (i, tx) \<in> set (transactions bc) \<Longrightarrow>
                    toAddress tx = Some a \<or> fromAddress tx = Some a \<Longrightarrow>
                    i \<in> set (addressTxIds (Some a) bc)"
  shows "calculateBalance (Some a) bc = balanceSpec a bc"
proof -
  let ?c = "\<lambda>i. case map_of (transactions bc) i of None \<Rightarrow> 0 | Some tx \<Rightarrow> txEffect a tx"
  let ?ids = "set (addressTxIds (Some a) bc)"
  let ?keys = "fst ` set (transactions bc)"
  have "calculateBalance (Some a) bc = (\<Sum>i\<leftarrow>addressTxIds (Some a) bc. ?c i)"
    by (simp add: calculateBalance_def foldl_balanceStep)
  also have "\<dots> = sum ?c ?ids"
    using once by (simp add: sum_list_distinct_conv_sum_set)
  also have "\<dots> = sum ?c (?ids \<inter> ?keys)"
  proof (rule sum.mono_neutral_right)
    show "\<forall>i\<in>?ids - ?ids \<inter> ?keys. ?c i = 0"
      by (auto simp: map_of_eq_None_iff [THEN iffD2] split: option.splits)
  qed auto
  also have "\<dots> = sum ?c ?keys"
  proof (rule sum.mono_neutral_left)
    show "\<forall>i\<in>?keys - ?ids \<inter> ?keys. ?c i = 0"
    proof
      fix i assume i: "i \<in> ?keys - ?ids \<inter> ?keys"
      then obtain tx where tx: "(i, tx) \<in> set (transactions bc)" by auto
      then have m: "map_of (transactions bc) i = Some tx" using keys by simp
      have "\<not> (toAddress tx = Some a \<or> fromAddress tx = Some a)"
        using indexed [OF tx] i by auto
      then show "?c i = 0" by (simp add: m txEffect_def)
    qed
  qed auto
  also have "\<dots> = balanceSpec a bc"
    using keys by (simp add: balanceSpec_effect sum_list_table)
  finally show ?thesis .
qed

subsection \<open>The index covers the stored transactions\<close>

lemma set_Map_set: "set (Map_set k v m) \<subseteq> insert (k, v) (set m)"
  by (induction m) (auto split: if_splits)

lemma addressTxIds_indexPush_other:
  "a \<noteq> b \<Longrightarrow> addressTxIds (Some a) (indexPush b i bc) = addressTxIds (Some a) bc"
  by (auto simp: addressTxIds_def indexPush_def Let_def Map_has_def Map_get_def map_of_Map_set
      split: option.splits)

lemma set_addressTxIds_indexPush:
  "set (addressTxIds (Some a) (indexPush b i bc)) =
     set (addressTxIds (Some a) bc) \<union> (if a = b then {i} else {})"
  by (simp add: addressTxIds_indexPush addressTxIds_indexPush_other)

lemma set_addressTxIds_storeTransaction:
  assumes "tx_id tx = Some i" and "i \<noteq> []"
  shows "set (addressTxIds (Some a) (storeTransaction (Some tx) bc)) =
     set (addressTxIds (Some a) bc)
     \<union> (if a \<noteq> [] \<and> (fromAddress tx = Some a \<or> toAddress tx = Some a) then {i} else {})"
  using assms
  by (auto simp: storeTransaction_def Let_def set_addressTxIds_indexPush
      addressTxIds_transactions_update split: option.splits if_splits)

lemma transactions_storeTransaction:
  assumes "tx_id tx = Some i" and "i \<noteq> []"
  shows "transactions (storeTransaction (Some tx) bc) = Map_set i tx (transactions bc)"
  using assms
  by (auto simp: storeTransaction_def Let_def indexPush_frame split: option.splits)

lemma indexCovers_empty: "indexCovers emptyChain"
  by (simp add: indexCovers_def emptyChain_def)

lemma indexCovers_storeTransaction:
  assumes "indexCovers bc"
  shows "indexCovers (storeTransaction t bc)"
proof (cases "\<exists>tx i. t = Some tx \<and> tx_id tx = Some i \<and> i \<noteq> []")
  case False
  then have "storeTransaction t bc = bc"
    by (cases t) (auto simp: storeTransaction_def split: option.splits)
  then show ?thesis using assms by simp
next
  case True
  then obtain tx i where t: "t = Some tx" and i: "tx_id tx = Some i" "i \<noteq> []" by blast
  let ?bc = "storeTransaction (Some tx) bc"
  have grow: "covered ao k bc \<Longrightarrow> covered ao k ?bc" for ao k
    by (auto simp: covered_def set_addressTxIds_storeTransaction [OF i] split: option.splits)
  have new: "covered (fromAddress tx) i ?bc \<and> covered (toAddress tx) i ?bc"
    by (auto simp: covered_def set_addressTxIds_storeTransaction [OF i] split: option.splits)
  have "covered (fromAddress tx') k ?bc \<and> covered (toAddress tx') k ?bc"
    if "(k, tx') \<in> set (transactions ?bc)" for k tx'
  proof -
    from that have "(k, tx') = (i, tx) \<or> (k, tx') \<in> set (transactions bc)"
      using set_Map_set [of i tx "transactions bc"]
      by (auto simp: transactions_storeTransaction [OF i])
    then show ?thesis
    proof
      assume "(k, tx') = (i, tx)"
      then show ?thesis using new by simp
    next
      assume "(k, tx') \<in> set (transactions bc)"
      then have "covered (fromAddress tx') k bc \<and> covered (toAddress tx') k bc"
        using assms by (auto simp: indexCovers_def list_all_iff)
      then show ?thesis using grow by blast
    qed
  qed
  then show ?thesis by (auto simp: indexCovers_def list_all_iff t)
qed

lemma indexCovers_storeAll:
  "indexCovers bc \<Longrightarrow> indexCovers (foldl (\<lambda>bc tx. storeTransaction tx bc) bc txs)"
  by (induction txs arbitrary: bc) (simp_all add: indexCovers_storeTransaction)

lemma indexCovers_blocks_height:
  "indexCovers (bc\<lparr>blocks := b, height := h\<rparr>) = indexCovers bc"
  by (simp add: indexCovers_def covered_def addressTxIds_def cong: option.case_cong)

lemma indexCovers_handleBlockBroadcast:
  "indexCovers (chain n) \<Longrightarrow> indexCovers (chain (fst (handleBlockBroadcast m n)))"
  by (auto simp: handleBlockBroadcast_def Let_def split_def indexCovers_storeAll
      indexCovers_blocks_height split: option.splits)

lemma indexCovers_handleTransactionBroadcast:
  "indexCovers (chain n) \<Longrightarrow> indexCovers (chain (fst (handleTransactionBroadcast m n)))"
  by (auto simp: handleTransactionBroadcast_def Let_def split_def indexCovers_storeTransaction
      split: option.splits)

text \<open>
  So in every ledger built by the handlers the computed balance of a non-empty address
  is the balance of the specification as long as its index holds no id twice.
\<close>

lemma calculateBalance_spec_indexed:
  assumes "mapInv bc" and "indexCovers bc" and "a \<noteq> []"
    and "distinct (addressTxIds (Some a) bc)"
  shows "calculateBalance (Some a) bc = balanceSpec a bc"
proof (rule calculateBalance_spec)
  show "distinct (map fst (transactions bc))" using assms(1) by (simp add: mapInv_def)
  show "distinct (addressTxIds (Some a) bc)" by fact
  show "i \<in> set (addressTxIds (Some a) bc)"
    if "(i, tx) \<in> set (transactions bc)" "toAddress tx = Some a \<or> fromAddress tx = Some a"
    for i tx
    using that assms(2,3) by (auto simp: indexCovers_def list_all_iff covered_def)
qed

subsection \<open>The sample runs, evaluated\<close>

lemma exTx_store:
  "storeTransaction (Some exTx) bc =
     indexPush ''bob'' ''t1'' (indexPush ''alice'' ''t1''
       (bc\<lparr>transactions := Map_set ''t1'' exTx (transactions bc)\<rparr>))"
  by (simp add: storeTransaction_def exTx_def)

lemma resentNode_chain:
  "chain resentNode =
     \<lparr>blocks = [(Hash ''h1'', exBlock (Hash ''h1'') (Some (exHeader 1)) [Some exTx])],
      transactions = [(''t1'', exTx)], height = 1, tips = [],
      txByAddress = [(''alice'', [''t1'', ''t1'']), (''bob'', [''t1'', ''t1''])],
      genesisHash = Null\<rparr>"
  by (simp add: resentNode_def handleBlockBroadcast_def handleTransactionBroadcast_def exMsg_def
      exNode_def emptyChain_def exBlock_def exTx_store split_def Let_def indexPush_def
      Map_has_def Map_get_def headerHeight_def exHeader_def orElse_def)

lemma noHashNode_eval:
  "noHashNode = \<lparr>chain = emptyChain\<lparr>blocks := [(Undefined, noHashBlock)], height := 5\<rparr>,
                 peers = [(''p1'', newPeer True ''p1'' ''10.0.0.1'' 0),
                          (''p2'', (newPeer True ''p2'' ''10.0.0.2'' 0)\<lparr>messageCount := 1\<rparr>),
                          (''p3'', newPeer False ''p3'' ''10.0.0.3'' 0)]\<rparr>"
  by (simp add: noHashNode_def handleBlockBroadcast_def exMsg_def exNode_def emptyChain_def
      noHashBlock_def exBlock_def split_def Let_def Map_has_def headerHeight_def exHeader_def
      orElse_def exPeers_def newPeer_def peer_send_def)

lemma forkNode_blocks:
  "blocks (chain forkNode) =
     [(Hash ''h1a'', exBlock (Hash ''h1a'') (Some (exHeader 1)) []),
      (Hash ''h1b'', exBlock (Hash ''h1b'') (Some (exHeader 1)) [])]"
  by (simp add: forkNode_def handleBlockBroadcast_def exMsg_def exNode_def emptyChain_def
      exBlock_def split_def Let_def Map_has_def)

lemma ladderNode_blocks:
  "blocks (chain ladderNode) =
     [(Hash ''b2'', exBlock (Hash ''b2'') (Some (exHeader 2)) []),
      (Hash ''b0'', exBlock (Hash ''b0'') (Some (exHeader 0)) []),
      (Hash ''b1'', exBlock (Hash ''b1'') (Some (exHeader 1)) [])]"
  by (simp add: ladderNode_def handleBlockBroadcast_def exMsg_def exNode_def emptyChain_def
      exBlock_def split_def Let_def Map_has_def)

lemma huge_not_finite: "\<not> finiteNumber (2 ^ 1024)"
  by (simp add: finiteNumber_def)

lemma small_finite: "finiteNumber 0" "finiteNumber 1" "finiteNumber 5" "finiteNumber 10"
  by (simp_all add: finiteNumber_def)

lemma hugeNode_chain:
  "chain hugeNode = emptyChain\<lparr>blocks := [(Hash ''hx'', hugeBlock)], height := 2 ^ 1024\<rparr>"
  by (simp add: hugeNode_def handleBlockBroadcast_def exMsg_def exNode_def emptyChain_def
      hugeBlock_def exBlock_def split_def Let_def Map_has_def headerHeight_def exHeader_def
      orElse_def)

subsection \<open>The genesis block, evaluated\<close>

declare decimal.simps [simp del]

lemma decimal_small: "n < 10 \<Longrightarrow> decimal n = [''0123456789'' ! n]"
  by (simp add: decimal.simps)

lemma genesisTx_fields:
  "tx_id (genesisTx ts (i, a, m)) = Some (''genesis-tx-'' @ decimal i)"
  "fromAddress (genesisTx ts (i, a, m)) = Some ''genesis''"
  "toAddress (genesisTx ts (i, a, m)) = Some a"
  "amount (genesisTx ts (i, a, m)) = Some m"
  "fee (genesisTx ts (i, a, m)) = Some 0"
  by (simp_all add: genesisTx_def)

lemma genesis_store:
  "foldl (\<lambda>c tx. storeTransaction (Some tx) c) emptyChain
     (map (genesisTx ts) (enumerate 0 initialSupply)) =
   \<lparr>blocks = [],
    transactions =
      [(''genesis-tx-0'', genesisTx ts (0, ''treasury'', 100000000)),
       (''genesis-tx-1'', genesisTx ts (1, ''team'', 20000000)),
       (''genesis-tx-2'', genesisTx ts (2, ''validators'', 10000000)),
       (''genesis-tx-3'', genesisTx ts (3, ''community_rewards'', 30000000)),
       (''genesis-tx-4'', genesisTx ts (4, ''liquidity_pool'', 40000000))],
    height = 0, tips = [],
    txByAddress =
      [(''genesis'', [''genesis-tx-0'', ''genesis-tx-1'', ''genesis-tx-2'', ''genesis-tx-3'',
                      ''genesis-tx-4'']),
       (''treasury'', [''genesis-tx-0'']), (''team'', [''genesis-tx-1'']),
       (''validators'', [''genesis-tx-2'']), (''community_rewards'', [''genesis-tx-3'']),
       (''liquidity_pool'', [''genesis-tx-4''])],
    genesisHash = Null\<rparr>"
  by (simp add: initialSupply_def emptyChain_def storeTransaction_transfer genesisTx_fields
      decimal_small indexPush_def Map_has_def Map_get_def eval_nat_numeral)

lemma createGenesisBlock_chain:
  "transactions (fst (createGenesisBlock sha256 stringify ts st (bc, d))) =
     transactions (foldl (\<lambda>c tx. storeTransaction (Some tx) c) bc
        (map (genesisTx ts) (enumerate 0 initialSupply)))"
  "txByAddress (fst (createGenesisBlock sha256 stringify ts st (bc, d))) =
     txByAddress (foldl (\<lambda>c tx. storeTransaction (Some tx) c) bc
        (map (genesisTx ts) (enumerate 0 initialSupply)))"
  "height (fst (createGenesisBlock sha256 stringify ts st (bc, d))) = 0"
  by (simp_all add: createGenesisBlock_def Let_def)

section \<open>The claims\<close>

text \<open>
  C1. For every address and every reachable ledger, \<open>calculateBalance\<close> is the sum of
  \<open>amount\<close> over the stored transactions sent to the address minus the sum of
  \<open>amount + fee\<close> over the stored transactions sent from it. The code departs from this
  once a transaction id has been stored twice: \<open>storeTransaction\<close> pushes the id onto
  the address index at every call, and \<open>calculateBalance\<close> counts the one stored
  transaction once per index entry. After a transaction of 10 from alice to bob has been
  broadcast and then received again in its block, bob's computed balance is 20 where the
  stored transactions sum to 10.
\<close>

theorem resent_balance:
  "calculateBalance (Some ''bob'') (chain resentNode) = 20
   \<and> balanceSpec ''bob'' (chain resentNode) = 10"
  by (simp add: resentNode_chain calculateBalance_def addressTxIds_def balanceStep_def
      balanceSpec_def Map_get_def Map_values_def exTx_def orElse_def)

text \<open>
  C2. When the ledger already holds a block under the hash of the block a
  \<open>blockBroadcast\<close> carries, handling the broadcast changes nothing (height, block
  table, transaction table, peers) and relays nothing. When it does not, handling two
  broadcasts in a row whose blocks have that same hash relays once: the first envelope
  goes to every open peer other than its sender, and the second call sends nothing and
  leaves the state of the first.
\<close>

theorem blockBroadcast_duplicate_hash:
  assumes "payload m1 = Some b1" and "payload m2 = Some b2" and "b_hash b2 = b_hash b1"
  shows "(Map_has (b_hash b1) (blocks (chain n)) \<longrightarrow> handleBlockBroadcast m2 n = (n, []))
       \<and> (\<not> Map_has (b_hash b1) (blocks (chain n)) \<longrightarrow>
            (case handleBlockBroadcast m1 n of (n1, sent1) \<Rightarrow>
               case handleBlockBroadcast m2 n1 of (n2, sent2) \<Rightarrow>
                 n2 = n1 \<and> sent2 = [] \<and>
                 sent1 @ sent2 =
                   map (\<lambda>(i, p). (i, m1))
                     (filter (\<lambda>(i, p). Some i \<noteq> senderId m1 \<and> wsOpen p) (peers n))))"
proof (intro conjI impI)
  assume "Map_has (b_hash b1) (blocks (chain n))"
  with assms show "handleBlockBroadcast m2 n = (n, [])"
    by (simp add: handleBlockBroadcast_known)
next
  assume new: "\<not> Map_has (b_hash b1) (blocks (chain n))"
  obtain n1 sent1 where r1: "handleBlockBroadcast m1 n = (n1, sent1)"
    by (cases "handleBlockBroadcast m1 n")
  have "blocks (chain n1) = Map_set (b_hash b1) b1 (blocks (chain n))"
    using handleBlockBroadcast_new(1) [OF assms(1) new] r1 by simp
  then have "Map_has (b_hash b2) (blocks (chain n1))"
    using assms(3) by (simp add: Map_has_Map_set)
  then have r2: "handleBlockBroadcast m2 n1 = (n1, [])"
    using assms(2) by (simp add: handleBlockBroadcast_known)
  have "sent1 = map (\<lambda>(i, p). (i, m1))
      (filter (\<lambda>(i, p). Some i \<noteq> senderId m1 \<and> wsOpen p) (peers n))"
    using handleBlockBroadcast_new(3) [OF assms(1) new] r1
    by (simp add: broadcastToPeers_sent)
  with r1 r2 show "case handleBlockBroadcast m1 n of (n1, sent1) \<Rightarrow>
               case handleBlockBroadcast m2 n1 of (n2, sent2) \<Rightarrow>
                 n2 = n1 \<and> sent2 = [] \<and>
                 sent1 @ sent2 =
                   map (\<lambda>(i, p). (i, m1))
                     (filter (\<lambda>(i, p). Some i \<noteq> senderId m1 \<and> wsOpen p) (peers n))"
    by simp
qed

text \<open>
  The theorem at work. On the node that already holds block \<open>h1\<close>, a further broadcast
  of that hash is dropped; on the empty node with peers \<open>p1\<close>, \<open>p2\<close> (open) and \<open>p3\<close>
  (closed), two broadcasts of hash \<open>h1\<close>, the first from \<open>p1\<close>, send one message, to
  \<open>p2\<close>.
\<close>

theorem blockBroadcast_duplicate_hash_witness:
  "handleBlockBroadcast
     (exMsg ''blockBroadcast'' ''p1'' (exBlock (Hash ''h1'') (Some (exHeader 1)) []))
     resentNode = (resentNode, [])
   \<and> (case handleBlockBroadcast
           (exMsg ''blockBroadcast'' ''p1'' (exBlock (Hash ''h1'') (Some (exHeader 1)) [Some exTx]))
           exNode of
      (n1, sent1) \<Rightarrow>
        case handleBlockBroadcast
               (exMsg ''blockBroadcast'' ''p2'' (exBlock (Hash ''h1'') (Some (exHeader 1)) []))
               n1 of
          (n2, sent2) \<Rightarrow>
            n2 = n1 \<and> sent2 = [] \<and>
            sent1 @ sent2 =
              [(''p2'', exMsg ''blockBroadcast'' ''p1''
                          (exBlock (Hash ''h1'') (Some (exHeader 1)) [Some exTx]))])"
  using blockBroadcast_duplicate_hash
    [of "exMsg ''blockBroadcast'' ''p1'' (exBlock (Hash ''h1'') (Some (exHeader 1)) [Some exTx])"
        "exBlock (Hash ''h1'') (Some (exHeader 1)) [Some exTx]"
        "exMsg ''blockBroadcast'' ''p2'' (exBlock (Hash ''h1'') (Some (exHeader 1)) [])"
        "exBlock (Hash ''h1'') (Some (exHeader 1)) []" exNode]
    blockBroadcast_duplicate_hash
    [of "exMsg ''blockBroadcast'' ''p1'' (exBlock (Hash ''h1'') (Some (exHeader 1)) [])"
        "exBlock (Hash ''h1'') (Some (exHeader 1)) []"
        "exMsg ''blockBroadcast'' ''p1'' (exBlock (Hash ''h1'') (Some (exHeader 1)) [])"
        "exBlock (Hash ''h1'') (Some (exHeader 1)) []" resentNode]
  by (simp add: exMsg_def exBlock_def exNode_def emptyChain_def Map_has_def exPeers_def
      newPeer_def resentNode_chain)

text \<open>
  C3, as the code has it. A sync request whose payload decodes is answered, and the
  blocks of the response are in ascending order of height, strictly so whenever no two
  stored blocks higher than \<open>lastKnownBlockHeight\<close> have the same height (the heights
  being safe integers, which the code holds exactly); each is higher than
  \<open>lastKnownBlockHeight\<close> (than 0 when the request has none); and there
  are at most \<open>requestedBlocks\<close> of them when \<open>requestedBlocks\<close> is 1 or more, at most
  100 when it is absent or 0.
\<close>

theorem syncResponse_blocks:
  assumes "payload message = Some rq"
    and "responseBlocks (snd (handleSyncRequest fresh now message bc)) = bs"
    and "lk = (case lastKnownBlockHeight rq of None \<Rightarrow> 0 | Some k \<Rightarrow> k)"
  shows "snd (handleSyncRequest fresh now message bc) \<noteq> None
       \<and> sorted (map headerHeight bs)
       \<and> (list_all (\<lambda>b. safeInteger (headerHeight b))
              (filter (\<lambda>b. lk < headerHeight b) (Map_values (blocks bc)))
            \<and> distinct (map headerHeight
                      (filter (\<lambda>b. lk < headerHeight b) (Map_values (blocks bc))))
            \<longrightarrow> sorted_wrt (<) (map headerHeight bs))
       \<and> (\<forall>b \<in> set bs. lk < headerHeight b)
       \<and> (\<forall>k. requestedBlocks rq = Some k \<and> 1 \<le> k \<longrightarrow> length bs \<le> nat k)
       \<and> (requestedBlocks rq = None \<or> requestedBlocks rq = Some 0 \<longrightarrow> length bs \<le> 100)"
proof -
  have bs: "bs = syncBlocks rq bc"
    using assms by (simp add: responseBlocks_handleSyncRequest)
  have lk: "orElse (lastKnownBlockHeight rq) 0 = lk"
    by (simp add: assms(3) orElse_def split: option.splits)
  have "\<forall>b \<in> set bs. lk < headerHeight b"
    using syncBlocks_above [of _ rq bc] by (simp add: bs lk)
  moreover have "list_all (\<lambda>b. safeInteger (headerHeight b))
              (filter (\<lambda>b. lk < headerHeight b) (Map_values (blocks bc)))
            \<and> distinct (map headerHeight
                      (filter (\<lambda>b. lk < headerHeight b) (Map_values (blocks bc))))
            \<longrightarrow> sorted_wrt (<) (map headerHeight bs)"
    using syncBlocks_strict [of rq bc] by (simp add: bs lk)
  moreover have "\<forall>k. requestedBlocks rq = Some k \<and> 1 \<le> k \<longrightarrow> length bs \<le> nat k"
    using syncBlocks_length [of rq bc] by (auto simp: bs orElse_def)
  moreover have "requestedBlocks rq = None \<or> requestedBlocks rq = Some 0 \<longrightarrow> length bs \<le> 100"
    using syncBlocks_length [of rq bc] by (auto simp: bs orElse_def)
  ultimately show ?thesis
    using handleSyncRequest_responds [OF assms(1)] syncBlocks_sorted [of rq bc] by (simp add: bs)
qed

text \<open>
  The theorem at work: on the ledger with blocks of heights 2, 0 and 1, a request with
  \<open>lastKnownBlockHeight = 0\<close> and \<open>requestedBlocks = 1\<close> is answered with the block of
  height 1 alone.
\<close>

theorem syncResponse_blocks_witness:
  "snd (handleSyncRequest ''r1'' 0 (exMsg ''syncRequest'' ''p1'' (exSync (Some 0) (Some 1)))
          (chain ladderNode)) \<noteq> None
   \<and> responseBlocks (snd (handleSyncRequest ''r1'' 0
        (exMsg ''syncRequest'' ''p1'' (exSync (Some 0) (Some 1))) (chain ladderNode)))
       = [exBlock (Hash ''b1'') (Some (exHeader 1)) []]
   \<and> sorted_wrt (<) (map headerHeight (responseBlocks (snd (handleSyncRequest ''r1'' 0
        (exMsg ''syncRequest'' ''p1'' (exSync (Some 0) (Some 1))) (chain ladderNode)))))
   \<and> length (responseBlocks (snd (handleSyncRequest ''r1'' 0
        (exMsg ''syncRequest'' ''p1'' (exSync (Some 0) (Some 1))) (chain ladderNode)))) \<le> 1"
proof -
  let ?m = "exMsg ''syncRequest'' ''p1'' (exSync (Some 0) (Some 1))"
  let ?bs = "responseBlocks (snd (handleSyncRequest ''r1'' 0 ?m (chain ladderNode)))"
  have p: "payload ?m = Some (exSync (Some 0) (Some 1))" by (simp add: exMsg_def)
  have l: "(0::int) = (case lastKnownBlockHeight (exSync (Some 0) (Some 1)) of
                         None \<Rightarrow> 0 | Some k \<Rightarrow> k)"
    by (simp add: exSync_def)
  have d: "distinct (map headerHeight
             (filter (\<lambda>b. 0 < headerHeight b) (Map_values (blocks (chain ladderNode)))))"
    by (simp add: ladderNode_blocks Map_values_def headerHeight_def exBlock_def exHeader_def
        orElse_def)
  have s: "list_all (\<lambda>b. safeInteger (headerHeight b))
             (filter (\<lambda>b. 0 < headerHeight b) (Map_values (blocks (chain ladderNode))))"
    by (simp add: ladderNode_blocks Map_values_def headerHeight_def exBlock_def exHeader_def
        orElse_def safeInteger_def)
  have r: "requestedBlocks (exSync (Some 0) (Some 1)) = Some 1" by (simp add: exSync_def)
  have e: "?bs = [exBlock (Hash ''b1'') (Some (exHeader 1)) []]"
    unfolding responseBlocks_handleSyncRequest [OF p]
    by (simp add: syncBlocks_def ladderNode_blocks Map_values_def exSync_def headerHeight_def
        exBlock_def exHeader_def orElse_def slice0_def)
  from syncResponse_blocks [OF p refl l] s d r e show ?thesis by simp
qed

text \<open>
  The claim as first worded fails in two places. With two stored blocks of height 1 the
  response lists both, so the heights are not strictly ascending; and a request whose
  \<open>requestedBlocks\<close> is 0 is answered with two blocks, one whose \<open>requestedBlocks\<close> is
  -1 with one.
\<close>

theorem syncResponse_counterexample:
  "map headerHeight
     (responseBlocks (snd (handleSyncRequest ''r1'' 0
        (exMsg ''syncRequest'' ''p1'' (exSync (Some 0) (Some 10))) (chain forkNode)))) = [1, 1]
   \<and> \<not> sorted_wrt (<) (map headerHeight
     (responseBlocks (snd (handleSyncRequest ''r1'' 0
        (exMsg ''syncRequest'' ''p1'' (exSync (Some 0) (Some 10))) (chain forkNode)))))
   \<and> requestedBlocks (exSync (Some 0) (Some 0)) = Some 0
   \<and> length (responseBlocks (snd (handleSyncRequest ''r1'' 0
        (exMsg ''syncRequest'' ''p1'' (exSync (Some 0) (Some 0))) (chain forkNode)))) = 2
   \<and> requestedBlocks (exSync (Some 0) (Some (- 1))) = Some (- 1)
   \<and> length (responseBlocks (snd (handleSyncRequest ''r1'' 0
        (exMsg ''syncRequest'' ''p1'' (exSync (Some 0) (Some (- 1)))) (chain forkNode)))) = 1"
  by (simp add: responseBlocks_handleSyncRequest exMsg_def syncBlocks_def forkNode_blocks
      Map_values_def exSync_def headerHeight_def exBlock_def exHeader_def orElse_def slice0_def)

text \<open>
  C4. Over every sequence of stores, each transaction id is to appear at most once per
  role in an address's index. The code appends the id at every \<open>storeTransaction\<close> call:
  after transaction \<open>t1\<close> has been broadcast and then received again in its block, the
  index of the sender alice and the index of the receiver bob both hold \<open>t1\<close> twice.
\<close>

theorem resent_index:
  "addressTxIds (Some ''alice'') (chain resentNode) = [''t1'', ''t1'']
   \<and> addressTxIds (Some ''bob'') (chain resentNode) = [''t1'', ''t1'']"
  by (simp add: resentNode_chain addressTxIds_def Map_get_def)

text \<open>
  C5, as the code has it. When every number stored in the ledger is finite, no block is
  stored under the missing hash \<open>undefined\<close> and the write succeeds, saving the ledger
  and loading the snapshot gives back the block table, the transaction table, the
  address index and the height. (The three distinctness premises say that the tables
  are \<open>Map\<close>s.)
\<close>

theorem snapshot_roundtrip:
  assumes "distinct (map fst (blocks bc))" and "distinct (map fst (transactions bc))"
    and "distinct (map fst (txByAddress bc))"
    and "finiteLedger bc"
    and "Undefined \<notin> fst ` set (blocks bc)" and "\<not> writeFails d"
  shows "case loadBlockchain (saveBlockchain now bc d) bc0 of (bc', loaded) \<Rightarrow>
           loaded \<and> blocks bc' = blocks bc \<and> transactions bc' = transactions bc
           \<and> txByAddress bc' = txByAddress bc \<and> height bc' = height bc"
proof -
  have b: "map (\<lambda>(k, b). (jsonElem k, jsonBlock b)) (blocks bc) = blocks bc"
    using assms(4,5) by (simp add: serialized_blocks finiteLedger_def)
  have t: "map (\<lambda>(k, tx). (k, jsonTransaction tx)) (transactions bc) = transactions bc"
    using assms(4) by (simp add: serialized_transactions finiteLedger_def)
  have h: "jsonNumber (Some (height bc)) = Some (height bc)"
    using assms(4) by (simp add: jsonNumber_def finiteLedger_def)
  show ?thesis
    using assms(1,2,3,6)
    by (simp add: loadBlockchain_def saveBlockchain_def ensureDataDirectory_def serialized_def
        Map_entries_def Let_def b t h new_Map_distinct)
qed

text \<open>
  The theorem at work, on the ledger holding block \<open>h1\<close> and transaction \<open>t1\<close>.
\<close>

theorem snapshot_roundtrip_witness:
  "(case loadBlockchain (saveBlockchain 0 (chain resentNode) exDisk) emptyChain of
      (bc', loaded) \<Rightarrow>
        loaded \<and> blocks bc' = blocks (chain resentNode)
        \<and> transactions bc' = transactions (chain resentNode)
        \<and> txByAddress bc' = txByAddress (chain resentNode)
        \<and> height bc' = height (chain resentNode))"
proof -
  have f: "finiteLedger (chain resentNode)"
    by (simp add: resentNode_chain finiteLedger_def finiteBlock_def finiteHeader_def
        finiteTransaction_def finiteOpt_def exBlock_def exHeader_def exTx_def small_finite)
  show ?thesis
    using snapshot_roundtrip [of "chain resentNode" exDisk 0 emptyChain] f
    by (simp add: resentNode_chain exDisk_def)
qed

text \<open>
  For every ledger the round trip does not hold. A height that is not finite is written
  as \<open>null\<close>: after the block of height \<open>2^1024\<close> the stored height and the block table
  both come back changed. And the block stored under \<open>undefined\<close> is loaded under
  \<open>null\<close>.
\<close>

theorem snapshot_roundtrip_counterexample:
  "height (fst (loadBlockchain (saveBlockchain 0 (chain hugeNode) exDisk) emptyChain))
     \<noteq> height (chain hugeNode)
   \<and> blocks (fst (loadBlockchain (saveBlockchain 0 (chain hugeNode) exDisk) emptyChain))
       \<noteq> blocks (chain hugeNode)
   \<and> blocks (fst (loadBlockchain (saveBlockchain 0 (chain noHashNode) exDisk) emptyChain)) =
       [(Null, noHashBlock)]
   \<and> blocks (fst (loadBlockchain (saveBlockchain 0 (chain noHashNode) exDisk) emptyChain))
       \<noteq> blocks (chain noHashNode)"
proof -
  have huge: "jsonBlock hugeBlock \<noteq> hugeBlock"
    by (simp add: jsonBlock_def hugeBlock_def exBlock_def jsonHeader_def exHeader_def
        jsonNumber_def jsonRat_def finiteNumber_def)
  have nohash: "jsonBlock noHashBlock = noHashBlock"
    by (simp add: jsonBlock_def noHashBlock_def exBlock_def jsonHeader_def exHeader_def
        jsonNumber_def jsonRat_def small_finite)
  have "height (fst (loadBlockchain (saveBlockchain 0 (chain hugeNode) exDisk) emptyChain)) = 0"
    by (simp add: hugeNode_chain loadBlockchain_def saveBlockchain_def ensureDataDirectory_def
        exDisk_def serialized_def Map_entries_def emptyChain_def Let_def jsonNumber_def
        finiteNumber_def)
  moreover have "height (chain hugeNode) = 2 ^ 1024"
    by (simp add: hugeNode_chain)
  moreover have "blocks (fst (loadBlockchain (saveBlockchain 0 (chain hugeNode) exDisk)
      emptyChain)) = [(Hash ''hx'', jsonBlock hugeBlock)]"
    by (simp add: hugeNode_chain loadBlockchain_def saveBlockchain_def ensureDataDirectory_def
        exDisk_def serialized_def Map_entries_def new_Map_def emptyChain_def Let_def)
  moreover have "blocks (chain hugeNode) = [(Hash ''hx'', hugeBlock)]"
    by (simp add: hugeNode_chain)
  moreover have "blocks (fst (loadBlockchain (saveBlockchain 0 (chain noHashNode) exDisk)
      emptyChain)) = [(Null, noHashBlock)]"
    by (simp add: noHashNode_eval loadBlockchain_def saveBlockchain_def
        ensureDataDirectory_def exDisk_def serialized_def Map_entries_def new_Map_def
        emptyChain_def Let_def nohash)
  moreover have "blocks (chain noHashNode) = [(Undefined, noHashBlock)]"
    by (simp add: noHashNode_eval)
  ultimately show ?thesis using huge by simp
qed

text \<open>
  C6. A block without hash and a transaction without id are to be ignored at the
  storage boundary. \<open>storeTransaction\<close> does return at once on a missing id
  (\<open>storeTransaction_without_id\<close>), but \<open>handleBlockBroadcast\<close> has no such test: the
  block with no \<open>hash\<close> is stored under \<open>undefined\<close>, raises the height to its own 5, and
  is relayed to the other open peer.
\<close>

theorem hashless_block_stored:
  "blocks (chain noHashNode) = [(Undefined, noHashBlock)] \<and> height (chain noHashNode) = 5
   \<and> chain noHashNode \<noteq> chain exNode
   \<and> snd (handleBlockBroadcast (exMsg ''blockBroadcast'' ''p1'' noHashBlock) exNode) =
       [(''p2'', exMsg ''blockBroadcast'' ''p1'' noHashBlock)]"
  by (simp add: noHashNode_eval exNode_def emptyChain_def handleBlockBroadcast_new(3)
      broadcastToPeers_sent exMsg_def Map_has_def exPeers_def newPeer_def noHashBlock_def
      exBlock_def)

text \<open>
  C7. Storing a transaction with an id whose sender and receiver are the same address
  \<open>a\<close> appends the id to the index of \<open>a\<close> once, not twice: the index after the call is
  the index before followed by the id, and holds the id once when it did not hold it
  before. (Present means truthy: the id and the address are non-empty strings.)
\<close>

theorem storeTransaction_self_transfer:
  assumes "tx_id tx = Some i" and "i \<noteq> []"
    and "fromAddress tx = Some a" and "toAddress tx = Some a" and "a \<noteq> []"
    and "i \<notin> set (addressTxIds (Some a) bc)"
  shows "addressTxIds (Some a) (storeTransaction (Some tx) bc) = addressTxIds (Some a) bc @ [i]
       \<and> count_list (addressTxIds (Some a) (storeTransaction (Some tx) bc)) i = 1"
proof -
  have "storeTransaction (Some tx) bc =
      indexPush a i (bc\<lparr>transactions := Map_set i tx (transactions bc)\<rparr>)"
    using assms by (simp add: storeTransaction_def)
  then have "addressTxIds (Some a) (storeTransaction (Some tx) bc) =
      addressTxIds (Some a) bc @ [i]"
    by (simp add: addressTxIds_indexPush addressTxIds_transactions_update)
  then show ?thesis using assms(6) by (simp add: count_list_0_iff)
qed

text \<open>The theorem at work: carol pays herself on the empty ledger.\<close>

theorem storeTransaction_self_transfer_witness:
  "addressTxIds (Some ''carol'') (storeTransaction (Some exSelfTx) emptyChain) = [''t2'']
   \<and> count_list (addressTxIds (Some ''carol'') (storeTransaction (Some exSelfTx) emptyChain))
        ''t2'' = 1"
  using storeTransaction_self_transfer [of exSelfTx "''t2''" "''carol''" emptyChain]
  by (simp add: exSelfTx_def addressTxIds_def emptyChain_def Map_get_def)

text \<open>
  C8. Handling a \<open>syncRequest\<close> never changes the ledger: whatever the request, the
  ledger after \<open>handleSyncRequest\<close> (block table, transaction table, address index,
  height, and the rest) is the ledger before.
\<close>

theorem syncRequest_readonly: "fst (handleSyncRequest fresh now message bc) = bc"
  by (simp add: handleSyncRequest_def Let_def split: option.splits)

text \<open>
  C9. On the empty ledger, whatever the clock and the digests, \<open>createGenesisBlock\<close>
  leaves height 0 and five stored transactions, and the balance of \<open>treasury\<close> is
  100000000.
\<close>

theorem genesis_bootstrap:
  "height (fst (createGenesisBlock sha256 stringify ts st (emptyChain, d))) = 0
   \<and> length (Map_values
        (transactions (fst (createGenesisBlock sha256 stringify ts st (emptyChain, d))))) = 5
   \<and> calculateBalance (Some ''treasury'')
        (fst (createGenesisBlock sha256 stringify ts st (emptyChain, d))) = 100000000"
  by (simp add: calculateBalance_def addressTxIds_def balanceStep_def createGenesisBlock_chain
      genesis_store Map_values_def Map_get_def genesisTx_fields orElse_def)

text \<open>
  C10. A block whose header, or whose header's height, is absent has height 0 wherever
  the code reads it: accepting it through a \<open>blockBroadcast\<close> leaves the stored height
  (which is never negative) as it was, and no sync response to a request whose
  \<open>lastKnownBlockHeight\<close> is 0 or more contains it.
\<close>

theorem missing_height_is_zero:
  assumes "b_header blk = None \<or> (\<exists>h. b_header blk = Some h \<and> h_height h = None)"
  shows "headerHeight blk = 0
       \<and> (payload m = Some blk \<longrightarrow> 0 \<le> height (chain n) \<longrightarrow>
            height (chain (fst (handleBlockBroadcast m n))) = height (chain n))
       \<and> (payload message = Some rq \<longrightarrow> lastKnownBlockHeight rq = Some k \<longrightarrow> 0 \<le> k \<longrightarrow>
            blk \<notin> set (responseBlocks (snd (handleSyncRequest fresh now message bc))))"
proof (intro conjI impI)
  show z: "headerHeight blk = 0" using assms by (rule headerHeight_absent)
  show "height (chain (fst (handleBlockBroadcast m n))) = height (chain n)"
    if "payload m = Some blk" "0 \<le> height (chain n)"
  proof (cases "Map_has (b_hash blk) (blocks (chain n))")
    case True
    then show ?thesis using that by (simp add: handleBlockBroadcast_known)
  next
    case False
    then show ?thesis using that z handleBlockBroadcast_new(2) [of m blk n] by simp
  qed
  show "blk \<notin> set (responseBlocks (snd (handleSyncRequest fresh now message bc)))"
    if "payload message = Some rq" "lastKnownBlockHeight rq = Some k" "0 \<le> k"
  proof
    assume "blk \<in> set (responseBlocks (snd (handleSyncRequest fresh now message bc)))"
    then have "blk \<in> set (syncBlocks rq bc)"
      using that(1) by (simp add: responseBlocks_handleSyncRequest)
    then have "orElse (lastKnownBlockHeight rq) 0 < headerHeight blk"
      by (rule syncBlocks_above)
    then show False using z that by (simp add: orElse_def split: if_splits)
  qed
qed

text \<open>
  The theorem at work: the block without header is accepted by the empty node, the
  height stays 0, and a sync from height 0 does not return the block.
\<close>

theorem missing_height_is_zero_witness:
  "headerHeight noHeaderBlock = 0
   \<and> height (chain (fst (handleBlockBroadcast (exMsg ''blockBroadcast'' ''p1'' noHeaderBlock)
        exNode))) = height (chain exNode)
   \<and> noHeaderBlock \<notin> set (responseBlocks (snd (handleSyncRequest ''r1'' 0
        (exMsg ''syncRequest'' ''p1'' (exSync (Some 0) (Some 10)))
        (chain (fst (handleBlockBroadcast (exMsg ''blockBroadcast'' ''p1'' noHeaderBlock)
           exNode))))))"
  using missing_height_is_zero [of noHeaderBlock "exMsg ''blockBroadcast'' ''p1'' noHeaderBlock"
      exNode "exMsg ''syncRequest'' ''p1'' (exSync (Some 0) (Some 10))"
      "exSync (Some 0) (Some 10)" 0 "''r1''" 0
      "chain (fst (handleBlockBroadcast (exMsg ''blockBroadcast'' ''p1'' noHeaderBlock) exNode))"]
  by (simp add: noHeaderBlock_def exBlock_def exMsg_def exNode_def emptyChain_def exSync_def)

end
